theory Spec2Isabelle
  imports Main "HOL-Library.Word" "HOL-Library.Sublist"
begin

section \<open>JavaScript strings and values\<close>

text \<open>
  A JavaScript string is a sequence of UTF-16 code units: \<^verbatim>\<open>slice\<close>, \<^verbatim>\<open>length\<close>,
  \<^verbatim>\<open>endsWith\<close> and a regular expression without the \<^verbatim>\<open>u\<close> flag all count and compare
  code units. An ASCII literal of the source is written \<open>js ''...''\<close>; a character
  outside ASCII is written as its code units.
\<close>

type_synonym jschar = "16 word"
type_synonym jsstring = "jschar list"

definition js :: "string \<Rightarrow> jsstring" where
  "js s = map of_char s"

text \<open>
  The values a field read from a parsed sheet, an environment variable or the JSON body
  can hold here: a string, \<^verbatim>\<open>undefined\<close> (the column or key is absent) or \<^verbatim>\<open>null\<close>.
\<close>

datatype jsval = Undefined | Null | Str jsstring

text \<open>\<^verbatim>\<open>!!v\<close>: undefined, null and the empty string are falsy.\<close>

fun truthy :: "jsval \<Rightarrow> bool" where
  "truthy Undefined = False"
| "truthy Null = False"
| "truthy (Str s) = (s \<noteq> [])"

text \<open>\<^verbatim>\<open>a || b\<close> on values.\<close>

definition js_or :: "jsval \<Rightarrow> jsval \<Rightarrow> jsval" where
  "js_or a b = (if truthy a then a else b)"

text \<open>\<^verbatim>\<open>`${v}`\<close>: what a template literal prints for a value.\<close>

fun tmpl :: "jsval \<Rightarrow> jsstring" where
  "tmpl Undefined = js ''undefined''"
| "tmpl Null = js ''null''"
| "tmpl (Str s) = s"

section \<open>Phone numbers\<close>

text \<open>The class \<^verbatim>\<open>\d\<close> without the \<^verbatim>\<open>u\<close> flag: the code units of \<^verbatim>\<open>0\<close> to \<^verbatim>\<open>9\<close>.\<close>

definition isDigit :: "jschar \<Rightarrow> bool" where
  "isDigit c = (0x30 \<le> c \<and> c \<le> 0x39)"

text \<open>
  \<^verbatim>\<open>function normalizePhone(raw) { if (!raw) return ""; return raw.replace(/\D/g, ""); }\<close>
\<close>

fun normalizePhone :: "jsval \<Rightarrow> jsstring" where
  "normalizePhone Undefined = []"
| "normalizePhone Null = []"
| "normalizePhone (Str s) = (if s = [] then [] else filter isDigit s)"

text \<open>
  \<^verbatim>\<open>userMessage.match(/\+?\d{10,13}/)\<close>. \<open>phoneRegexAt s\<close> is the match attempt at the
  start of \<open>s\<close>: the greedy \<^verbatim>\<open>\+?\<close> takes a plus sign when there is one, then
  \<^verbatim>\<open>\d{10,13}\<close> takes as many digits as it can up to 13 and needs 10; when that fails the
  engine backtracks to \<^verbatim>\<open>\+?\<close> matching nothing and tries the digits again at the same
  place. \<open>phoneRegex\<close> tries each start position from the left and returns the first
  match, \<open>None\<close> for \<^verbatim>\<open>null\<close>.
\<close>

definition digitRun :: "jsstring \<Rightarrow> jsstring option" where
  "digitRun s =
     (let d = takeWhile isDigit s
      in if 10 \<le> length d then Some (take 13 d) else None)"

definition phoneRegexAt :: "jsstring \<Rightarrow> jsstring option" where
  "phoneRegexAt s =
     (case s of
        [] \<Rightarrow> digitRun s
      | c # rest \<Rightarrow>
          if c = 0x2B then
            (case digitRun rest of
               Some d \<Rightarrow> Some (c # d)
             | None \<Rightarrow> digitRun s)
          else digitRun s)"

fun phoneRegex :: "jsstring \<Rightarrow> jsstring option" where
  "phoneRegex [] = phoneRegexAt []"
| "phoneRegex (c # cs) =
     (case phoneRegexAt (c # cs) of
        Some m \<Rightarrow> Some m
      | None \<Rightarrow> phoneRegex cs)"

text \<open>\<^verbatim>\<open>s.endsWith(q)\<close>\<close>

definition endsWith :: "jsstring \<Rightarrow> jsstring \<Rightarrow> bool" where
  "endsWith s q = (length q \<le> length s \<and> drop (length s - length q) s = q)"

section \<open>The snapshot of event data\<close>

text \<open>
  The rows of a sheet are parsed with \<^verbatim>\<open>columns: true\<close>: each row is an object keyed by
  the header's column names, every value a string. Reading a column the header does not
  have gives \<^verbatim>\<open>undefined\<close>.
\<close>

type_synonym row = "jsstring \<rightharpoonup> jsstring"

definition field :: "row \<Rightarrow> string \<Rightarrow> jsval" where
  "field r k = (case r (js k) of None \<Rightarrow> Undefined | Some v \<Rightarrow> Str v)"

record event =
  e_key :: jsval
  e_name :: jsval
  e_date :: jsval
  e_time :: jsval
  e_venue :: jsval
  e_address :: jsval
  e_mapLink :: jsval
  e_dressCode :: jsval

record hotel =
  h_name :: jsval
  h_type :: jsval
  h_address :: jsval
  h_mapLink :: jsval
  h_priceRange :: jsval
  h_bookingLink :: jsval
  h_contactPerson :: jsval
  h_contactPhone :: jsval
  h_notes :: jsval

record guest =
  g_phone :: jsval
  g_name :: jsval
  g_hotelName :: jsval
  g_roomNo :: jsval
  g_notes :: jsval

record stay =
  s_hotelName :: jsval
  s_address :: jsval
  s_mapLink :: jsval
  s_checkIn :: jsval
  s_checkOut :: jsval
  s_contactPerson :: jsval
  s_contactPhone :: jsval

record contact =
  c_name :: jsval
  c_phone :: jsval

record eventData =
  coupleNames :: jsval
  weddingName :: jsval
  city :: jsval
  events :: "event list"
  hotels :: "hotel list"
  guests :: "guest list"
  stay :: "stay option"
  emergencyContact :: "contact option"

subsection \<open>Loading a sheet\<close>

text \<open>
  What the sheet service answers for a URL: the request itself fails, or a response
  arrives with a status and a body that \<^verbatim>\<open>parse\<close> turns into rows (\<open>None\<close> when
  \<^verbatim>\<open>parse\<close> throws). The completion service rejects, or answers with the list
  \<^verbatim>\<open>choices\<close>, each entry given by its \<^verbatim>\<open>message.content\<close>.
\<close>

datatype fetched = NetworkFailure | HttpResponse nat "row list option"

datatype completion = Rejected | Choices "jsval list"

datatype error =
    ConfigMissing
  | FetchStatus jsstring nat
  | FetchRejected
  | CsvInvalid
  | TypeError
  | CompletionRejected

text \<open>
  The outside world of the server: the sheets as they are now, the URLs requested so
  far, the completion service, the prompts sent to it so far, and what
  \<^verbatim>\<open>console.error\<close> has printed.
\<close>

record world =
  sheets :: "jsstring \<Rightarrow> fetched"
  requested :: "jsstring list"
  completions :: "jsstring \<Rightarrow> jsstring \<Rightarrow> completion"
  prompted :: "(jsstring \<times> jsstring) list"
  console :: "error list"

record env =
  META_CSV_URL :: jsval
  EVENTS_CSV_URL :: jsval
  HOTELS_CSV_URL :: jsval
  GUESTS_CSV_URL :: jsval

text \<open>
  \<^verbatim>\<open>async function loadCsv(url)\<close>: \<^verbatim>\<open>res.ok\<close> is a status from 200 to 299.
\<close>

definition loadCsv :: "jsstring \<Rightarrow> world \<Rightarrow> (error + row list) \<times> world" where
  "loadCsv url w =
     (let w' = w\<lparr>requested := requested w @ [url]\<rparr>
      in case sheets w url of
           NetworkFailure \<Rightarrow> (Inl FetchRejected, w')
         | HttpResponse status body \<Rightarrow>
             if \<not> (200 \<le> status \<and> status \<le> 299) then (Inl (FetchStatus url status), w')
             else (case body of
                     None \<Rightarrow> (Inl CsvInvalid, w')
                   | Some records \<Rightarrow> (Inr records, w')))"

subsection \<open>Building the snapshot\<close>

text \<open>
  \<^verbatim>\<open>for (const row of metaRows) { if (row.field) { meta[row.field] = row.value ?? ""; } }\<close>
\<close>

definition metaStep :: "row \<Rightarrow> (jsstring \<rightharpoonup> jsstring) \<Rightarrow> (jsstring \<rightharpoonup> jsstring)" where
  "metaStep r meta =
     (case field r ''field'' of
        Str f \<Rightarrow>
          if f \<noteq> [] then meta(f \<mapsto> (case r (js ''value'') of None \<Rightarrow> [] | Some v \<Rightarrow> v))
          else meta
      | _ \<Rightarrow> meta)"

definition metaOf :: "row list \<Rightarrow> (jsstring \<rightharpoonup> jsstring)" where
  "metaOf metaRows = fold metaStep metaRows Map.empty"

definition eventOf :: "row \<Rightarrow> event" where
  "eventOf r =
     \<lparr>e_key = field r ''key'', e_name = field r ''name'', e_date = field r ''date'',
      e_time = field r ''time'', e_venue = field r ''venue'', e_address = field r ''address'',
      e_mapLink = field r ''mapLink'', e_dressCode = field r ''dressCode''\<rparr>"

definition hotelOf :: "row \<Rightarrow> hotel" where
  "hotelOf h =
     \<lparr>h_name = field h ''name'', h_type = field h ''type'', h_address = field h ''address'',
      h_mapLink = field h ''mapLink'', h_priceRange = field h ''priceRange'',
      h_bookingLink = field h ''bookingLink'', h_contactPerson = field h ''contactPerson'',
      h_contactPhone = field h ''contactPhone'', h_notes = field h ''notes''\<rparr>"

definition guestOf :: "row \<Rightarrow> guest" where
  "guestOf g =
     \<lparr>g_phone = field g ''phone'', g_name = field g ''name'',
      g_hotelName = field g ''hotelName'', g_roomNo = field g ''roomNo'',
      g_notes = field g ''notes''\<rparr>"

definition assemble :: "row list \<Rightarrow> row list \<Rightarrow> row list \<Rightarrow> row list \<Rightarrow> eventData" where
  "assemble metaRows eventRows hotelsRows guestsRows =
     (let meta = metaOf metaRows in
      \<lparr>coupleNames = js_or (field meta ''coupleNames'') (Str []),
       weddingName = js_or (field meta ''weddingName'') (Str []),
       city = js_or (field meta ''city'') (Str []),
       events = map eventOf eventRows,
       hotels = map hotelOf hotelsRows,
       guests = map guestOf guestsRows,
       stay =
         (if truthy (field meta ''hotelName'') then
            Some \<lparr>s_hotelName = field meta ''hotelName'',
                  s_address = field meta ''hotelAddress'',
                  s_mapLink = field meta ''hotelMapLink'',
                  s_checkIn = field meta ''hotelCheckIn'',
                  s_checkOut = field meta ''hotelCheckOut'',
                  s_contactPerson = field meta ''hotelContactPerson'',
                  s_contactPhone = field meta ''hotelContactPhone''\<rparr>
          else None),
       emergencyContact =
         (if truthy (field meta ''emergencyName'') then
            Some \<lparr>c_name = field meta ''emergencyName'',
                  c_phone = field meta ''emergencyPhone''\<rparr>
          else None)\<rparr>)"

text \<open>An optional sheet: \<^verbatim>\<open>let rows = []; if (url) { rows = await loadCsv(url); }\<close>\<close>

definition loadOptional :: "jsval \<Rightarrow> world \<Rightarrow> (error + row list) \<times> world" where
  "loadOptional url w = (if truthy url then loadCsv (tmpl url) w else (Inr [], w))"

text \<open>
  \<^verbatim>\<open>async function buildEventDataFromSheets()\<close>: the two required locations are checked
  before anything is requested; the four sheets are then loaded one after the other,
  and the first failure ends the build.
\<close>

definition buildEventDataFromSheets :: "env \<Rightarrow> world \<Rightarrow> (error + eventData) \<times> world" where
  "buildEventDataFromSheets en w =
     (if \<not> truthy (META_CSV_URL en) \<or> \<not> truthy (EVENTS_CSV_URL en) then (Inl ConfigMissing, w)
      else
        case loadCsv (tmpl (META_CSV_URL en)) w of
          (Inl e, w1) \<Rightarrow> (Inl e, w1)
        | (Inr metaRows, w1) \<Rightarrow>
        (case loadCsv (tmpl (EVENTS_CSV_URL en)) w1 of
          (Inl e, w2) \<Rightarrow> (Inl e, w2)
        | (Inr eventRows, w2) \<Rightarrow>
        (case loadOptional (HOTELS_CSV_URL en) w2 of
          (Inl e, w3) \<Rightarrow> (Inl e, w3)
        | (Inr hotelsRows, w3) \<Rightarrow>
        (case loadOptional (GUESTS_CSV_URL en) w3 of
          (Inl e, w4) \<Rightarrow> (Inl e, w4)
        | (Inr guestsRows, w4) \<Rightarrow>
            (Inr (assemble metaRows eventRows hotelsRows guestsRows), w4)))))"

subsection \<open>The cache\<close>

text \<open>
  \<^verbatim>\<open>let cachedEventData = null; let lastLoadedMs = 0; const CACHE_TTL_MS = 5 * 60 * 1000;\<close>
\<close>

record cache =
  cachedEventData :: "eventData option"
  lastLoadedMs :: int

definition initialCache :: cache where
  "initialCache = \<lparr>cachedEventData = None, lastLoadedMs = 0\<rparr>"

definition CACHE_TTL_MS :: int where
  "CACHE_TTL_MS = 5 * 60 * 1000"

text \<open>
  \<^verbatim>\<open>async function getEventData()\<close>, with the reading \<open>now\<close> of \<^verbatim>\<open>Date.now()\<close> passed in.
  A snapshot object is always truthy, so \<^verbatim>\<open>cachedEventData && ...\<close> asks whether one is
  cached. A failed build leaves both variables as they were.
\<close>

definition getEventData ::
  "env \<Rightarrow> int \<Rightarrow> cache \<times> world \<Rightarrow> (error + eventData) \<times> cache \<times> world" where
  "getEventData en now cw =
     (let (c, w) = cw;
          miss = (case buildEventDataFromSheets en w of
                    (Inl e, w') \<Rightarrow> (Inl e, c, w')
                  | (Inr data, w') \<Rightarrow>
                      (Inr data, \<lparr>cachedEventData = Some data, lastLoadedMs = now\<rparr>, w'))
      in case cachedEventData c of
           Some data \<Rightarrow> if now - lastLoadedMs c < CACHE_TTL_MS then (Inr data, c, w) else miss
         | None \<Rightarrow> miss)"

section \<open>The context document\<close>

text \<open>A number in a template literal: its decimal digits.\<close>

function showNat :: "nat \<Rightarrow> jsstring" where
  "showNat n =
     (if n < 10 then [of_nat (48 + n)]
      else showNat (n div 10) @ [of_nat (48 + n mod 10)])"
  by pat_completeness auto
termination
  by (relation "measure id") auto

text \<open>\<^verbatim>\<open>lines.join("\n")\<close>\<close>

fun joinLines :: "jsstring list \<Rightarrow> jsstring" where
  "joinLines [] = []"
| "joinLines [l] = l"
| "joinLines (l # m # ls) = l @ [0x0A] @ joinLines (m # ls)"

definition eventLine :: "nat \<times> event \<Rightarrow> jsstring" where
  "eventLine ie =
     (let (idx, e) = ie in
      showNat (idx + 1) @ js ''. '' @ tmpl (e_name e) @ js '' ('' @ tmpl (e_key e) @
      js '') on '' @ tmpl (e_date e) @ js '' at '' @ tmpl (e_time e) @ js '', '' @
      js ''Venue: '' @ tmpl (e_venue e) @ js '', Address: '' @ tmpl (e_address e) @
      js '', Map: '' @ tmpl (e_mapLink e) @ js '', Dress code: '' @ tmpl (e_dressCode e))"

definition stayLine :: "stay \<Rightarrow> jsstring" where
  "stayLine s =
     js ''STAY: Hotel '' @ tmpl (s_hotelName s) @ js '', '' @ tmpl (s_address s) @
     js '', Map: '' @ tmpl (s_mapLink s) @ js '', '' @
     js ''Check-in: '' @ tmpl (s_checkIn s) @ js '', Check-out: '' @ tmpl (s_checkOut s) @
     js '', '' @
     js ''Contact: '' @ tmpl (s_contactPerson s) @ js '' ('' @ tmpl (s_contactPhone s) @
     js '').''"

definition emergencyLine :: "contact \<Rightarrow> jsstring" where
  "emergencyLine c =
     js ''EMERGENCY CONTACT: '' @ tmpl (c_name c) @ js '', Phone: '' @ tmpl (c_phone c) @
     js ''.''"

definition hotelLine :: "nat \<times> hotel \<Rightarrow> jsstring" where
  "hotelLine ih =
     (let (idx, h) = ih in
      showNat (idx + 1) @ js ''. '' @ tmpl (h_name h) @ js '' ('' @
      tmpl (js_or (h_type h) (Str (js ''Hotel''))) @ js '') - Address: '' @
      tmpl (h_address h) @ js ''. '' @
      js ''Map: '' @ tmpl (h_mapLink h) @ js ''. Price: '' @ tmpl (h_priceRange h) @
      js ''. '' @
      js ''Booking: '' @ tmpl (h_bookingLink h) @ js ''. Contact: '' @
      tmpl (h_contactPerson h) @ js '' ('' @ tmpl (h_contactPhone h) @ js ''). Notes: '' @
      tmpl (h_notes h))"

text \<open>\<^verbatim>\<open>function buildContextFromEventData(EVENT_DATA)\<close>; the guests are not part of it.\<close>

definition buildContextFromEventData :: "eventData \<Rightarrow> jsstring" where
  "buildContextFromEventData EVENT_DATA =
     joinLines
       ([js ''Wedding: '' @ tmpl (weddingName EVENT_DATA) @ js '' in '' @
           tmpl (city EVENT_DATA),
         js ''Couple: '' @ tmpl (coupleNames EVENT_DATA),
         [],
         js ''EVENT SCHEDULE:''] @
        map eventLine (enumerate 0 (events EVENT_DATA)) @
        [[]] @
        (case stay EVENT_DATA of Some s \<Rightarrow> [stayLine s] | None \<Rightarrow> []) @
        (case emergencyContact EVENT_DATA of Some c \<Rightarrow> [emergencyLine c] | None \<Rightarrow> []) @
        [[]] @
        (if 0 < length (hotels EVENT_DATA) then
           [js ''HOTEL OPTIONS:''] @ map hotelLine (enumerate 0 (hotels EVENT_DATA))
         else []))"

section \<open>The booking lookup\<close>

text \<open>
  The callback of \<^verbatim>\<open>EVENT_DATA.guests.find\<close>:
  \<^verbatim>\<open>normalizedGuestPhone && normalizedGuestPhone.endsWith(normalizedQuery)\<close>.
\<close>

definition guestMatches :: "jsstring \<Rightarrow> guest \<Rightarrow> bool" where
  "guestMatches normalizedQuery g =
     (let normalizedGuestPhone = normalizePhone (g_phone g)
      in normalizedGuestPhone \<noteq> [] \<and> endsWith normalizedGuestPhone normalizedQuery)"

text \<open>
  The three ways the lookup ends, in the order the handler tests them:
  \<^verbatim>\<open>if (phoneMatch && !guestInfo)\<close> is \<open>NotFound\<close>, \<^verbatim>\<open>if (guestInfo)\<close> is \<open>Found\<close>, and
  what is left is \<open>NoPhoneMentioned\<close>.
\<close>

datatype resolution = NoPhoneMentioned | NotFound | Found guest

definition resolveBooking :: "jsstring \<Rightarrow> guest list \<Rightarrow> resolution" where
  "resolveBooking userMessage gs =
     (let phoneMatch = phoneRegex userMessage;
          guestInfo =
            (case phoneMatch of
               Some rawPhone \<Rightarrow>
                 if 0 < length gs then
                   (let normalizedQuery = normalizePhone (Str rawPhone)
                    in find (guestMatches normalizedQuery) gs)
                 else None
             | None \<Rightarrow> None)
      in if phoneMatch \<noteq> None \<and> guestInfo = None then NotFound
         else (case guestInfo of Some g \<Rightarrow> Found g | None \<Rightarrow> NoPhoneMentioned))"

section \<open>Replies\<close>

text \<open>
  \<^verbatim>\<open>String.prototype.trim\<close> removes white space and line terminators from both ends;
  \<open>trimEnd\<close> is its right half.
\<close>

definition isWhiteSpace :: "jschar \<Rightarrow> bool" where
  "isWhiteSpace c =
     (c \<in> {0x09, 0x0A, 0x0B, 0x0C, 0x0D, 0x20, 0xA0, 0x1680, 0x2028, 0x2029, 0x202F,
            0x205F, 0x3000, 0xFEFF} \<or> (0x2000 \<le> c \<and> c \<le> 0x200A))"

definition trimEnd :: "jsstring \<Rightarrow> jsstring" where
  "trimEnd s = rev (dropWhile isWhiteSpace (rev s))"

definition trim :: "jsstring \<Rightarrow> jsstring" where
  "trim s = trimEnd (dropWhile isWhiteSpace s)"

record response =
  status :: nat
  reply :: jsstring

definition noBookingReply :: jsstring where
  "noBookingReply =
     trim (js ''\<newline><strong>Hotel Booking:</strong>\<newline>'' @
           js ''Aapke liye abhi tak koi hotel booking nahi hui hai.\<newline>'' @
           js ''Agar aapko stay arrange karwana hai, please directly family se contact karein. '' @
           [0xD83D, 0xDE42] @ js ''\<newline>'')"

definition errorReply :: jsstring where
  "errorReply =
     js ''Oops, Babli Bua ko data load karne mein issue aa gaya. Please thodi der baad try karo.''"

text \<open>
  \<^verbatim>\<open>EVENT_DATA.hotels?.find((h) => h.name.toLowerCase() === guestInfo.hotelName?.toLowerCase()) || null\<close>.
  The hotel's name is dereferenced without a guard, so a hotel whose name is undefined
  or null makes the callback throw; the guest's hotel name is guarded by \<^verbatim>\<open>?.\<close> and
  gives \<^verbatim>\<open>undefined\<close> there. \<open>lc\<close> is the engine's \<^verbatim>\<open>toLowerCase\<close>, whose Unicode case
  tables are not part of the program.
\<close>

definition optLower :: "(jsstring \<Rightarrow> jsstring) \<Rightarrow> jsval \<Rightarrow> jsval" where
  "optLower lc v = (case v of Str s \<Rightarrow> Str (lc s) | _ \<Rightarrow> Undefined)"

fun hotelFind :: "(jsstring \<Rightarrow> jsstring) \<Rightarrow> hotel list \<Rightarrow> guest \<Rightarrow> error + hotel option" where
  "hotelFind lc [] guestInfo = Inr None"
| "hotelFind lc (h # hs) guestInfo =
     (case h_name h of
        Str n \<Rightarrow>
          if Str (lc n) = optLower lc (g_hotelName guestInfo) then Inr (Some h)
          else hotelFind lc hs guestInfo
      | _ \<Rightarrow> Inl TypeError)"

text \<open>\<^verbatim>\<open>hotel?.f\<close>\<close>

definition opt :: "(hotel \<Rightarrow> jsval) \<Rightarrow> hotel option \<Rightarrow> jsval" where
  "opt f hotel = (case hotel of None \<Rightarrow> Undefined | Some h \<Rightarrow> f h)"

definition bookingReply :: "guest \<Rightarrow> hotel option \<Rightarrow> jsstring" where
  "bookingReply guestInfo hotel =
     trim (js ''\<newline><strong>Booking Found for '' @ tmpl (g_name guestInfo) @
             js '':</strong>\<newline>'' @
           js ''<strong>Hotel:</strong> '' @
             tmpl (js_or (js_or (opt h_name hotel) (g_hotelName guestInfo)) (Str (js ''N/A''))) @
             js ''\<newline>'' @
           js ''<strong>Room:</strong> '' @
             tmpl (js_or (g_roomNo guestInfo) (Str (js ''N/A''))) @ js ''\<newline>'' @
           js ''<strong>Address:</strong> '' @
             tmpl (js_or (opt h_address hotel) (Str (js ''Address not available''))) @
             js ''\<newline>'' @
           js ''<strong>Map:</strong> '' @
             tmpl (js_or (opt h_mapLink hotel) (Str (js ''Map link not available''))) @
             js ''\<newline>'' @
           js ''<strong>Contact:</strong> '' @
             tmpl (js_or (opt h_contactPerson hotel) (Str (js ''N/A''))) @ js '' ('' @
             tmpl (js_or (opt h_contactPhone hotel) (Str (js ''N/A''))) @ js '')\<newline>'' @
           js ''<strong>Notes:</strong> '' @
             tmpl (js_or (js_or (g_notes guestInfo) (opt h_notes hotel))
                     (Str (js ''Enjoy your stay! '' @ [0xD83D, 0xDE0A]))) @
             js ''\<newline>'')"

section \<open>The completion path\<close>

definition systemPrompt :: "eventData \<Rightarrow> jsstring" where
  "systemPrompt EVENT_DATA =
     trim (js ''\<newline>'' @
     js ''You are \"Babli\", a friendly AI wedding assistant for the '' @
       tmpl (weddingName EVENT_DATA) @ js ''.\<newline>'' @
     js ''You answer only questions about this wedding:\<newline>'' @
     js ''\<newline>'' @
     js ''- Function dates, timings, venues, dress code\<newline>'' @
     js ''- Hotel stay details and general hotel options\<newline>'' @
     js ''- How to reach venues and hotels (use map links)\<newline>'' @
     js ''- Emergency/main contact person\<newline>'' @
     js ''\<newline>'' @
     js ''Formatting rules (very important):\<newline>'' @
     js ''- Reply in a clean, multi-line format.\<newline>'' @
     js ''- Use simple HTML <strong> only for labels like:\<newline>'' @
     js ''  <strong>Mehendi Ceremony:</strong>\<newline>'' @
     js ''  <strong>Date:</strong> 10 February 2025\<newline>'' @
     js ''  <strong>Time:</strong> 11:00 AM\<newline>'' @
     js ''  <strong>Venue:</strong> Green Leaf Lawn, Jaipur\<newline>'' @
     js ''  <strong>Dress code:</strong> Green / Yellow Indian ethnic\<newline>'' @
     js ''  <strong>Map:</strong> https://maps.google.com/...\<newline>'' @
     js ''- For hotel info, you can respond like:\<newline>'' @
     js ''  <strong>Hotel:</strong> Hotel Sunshine (Main Hotel)\<newline>'' @
     js ''  <strong>Address:</strong> MI Road, Jaipur\<newline>'' @
     js ''  <strong>Price range:</strong> '' @ [0x20B9] @ js ''3000'' @ [0x2013] @ [0x20B9] @
       js ''4500 per night\<newline>'' @
     js ''  <strong>Booking link:</strong> https://bookinglink.com/...\<newline>'' @
     js ''- Do NOT use markdown (**bold**, [links](url)) or other HTML tags.\<newline>'' @
     js ''- No bullet symbols like '' @ [0x2022] @
       js ''. Just plain text with line breaks.\<newline>'' @
     js ''- Use light Hinglish (simple Hindi + English), friendly tone.\<newline>'' @
     js ''- Only include information relevant to the guest'' @ [0x27] @
       js ''s question.\<newline>'' @
     js ''- If the question is not about this wedding, politely say you only know wedding details.\<newline>'')"

definition userPrompt :: "jsstring \<Rightarrow> jsstring \<Rightarrow> jsstring" where
  "userPrompt contextString userMessage =
     trim (js ''\<newline>'' @
     js ''Here are all the current wedding details (from Google Sheets):\<newline>'' @
     js ''\<newline>'' @
     contextString @ js ''\<newline>'' @
     js ''\<newline>'' @
     js ''Guest message: \"'' @ userMessage @ js ''\"\<newline>'' @
     js ''\<newline>'' @
     js ''Now answer as per the rules.\<newline>'')"

text \<open>
  \<^verbatim>\<open>completion.choices[0]?.message?.content?.trim() || "Sorry, ..."\<close>
\<close>

definition completionReply :: "jsval list \<Rightarrow> jsstring" where
  "completionReply choices =
     tmpl (js_or
             (case choices of
                [] \<Rightarrow> Undefined
              | content # _ \<Rightarrow> (case content of Str s \<Rightarrow> Str (trim s) | _ \<Rightarrow> Undefined))
             (Str (js ''Sorry, abhi main answer nahi de paa rahi hoon.'')))"

section \<open>The chat endpoint\<close>

text \<open>
  \<^verbatim>\<open>(req.body.message || "").toString().slice(0, 500)\<close>, for the \<^verbatim>\<open>message\<close> of a body
  \<^verbatim>\<open>{ message: string }\<close>, undefined when the body has none.
\<close>

definition userMessageOf :: "jsval \<Rightarrow> jsstring" where
  "userMessageOf message = take 500 (tmpl (js_or message (Str [])))"

text \<open>The \<^verbatim>\<open>catch\<close> block: the error goes to the console, the caller gets the fixed reply.\<close>

definition failure :: "error \<Rightarrow> cache \<Rightarrow> world \<Rightarrow> response \<times> cache \<times> world" where
  "failure err c w =
     (\<lparr>status = 500, reply = errorReply\<rparr>, c, w\<lparr>console := console w @ [err]\<rparr>)"

text \<open>
  The second half of the handler. The source builds the context string right after
  loading the snapshot; building it has no effect and cannot throw, so it is built here,
  where it is used.
\<close>

definition completionPath ::
  "eventData \<Rightarrow> jsstring \<Rightarrow> cache \<Rightarrow> world \<Rightarrow> response \<times> cache \<times> world" where
  "completionPath EVENT_DATA userMessage c w =
     (let contextString = buildContextFromEventData EVENT_DATA;
          sp = systemPrompt EVENT_DATA;
          up = userPrompt contextString userMessage;
          w' = w\<lparr>prompted := prompted w @ [(sp, up)]\<rparr>
      in case completions w sp up of
           Rejected \<Rightarrow> failure CompletionRejected c w'
         | Choices choices \<Rightarrow> (\<lparr>status = 200, reply = completionReply choices\<rparr>, c, w'))"

text \<open>
  \<^verbatim>\<open>app.post("/api/chat", ...)\<close>: the handler of one request, given the engine's
  \<^verbatim>\<open>toLowerCase\<close>, the environment, the clock's reading, the body's \<^verbatim>\<open>message\<close>, and the
  cache and the world as they are when the request arrives.
\<close>

definition chatHandler ::
  "(jsstring \<Rightarrow> jsstring) \<Rightarrow> env \<Rightarrow> int \<Rightarrow> jsval \<Rightarrow> cache \<times> world \<Rightarrow> response \<times> cache \<times> world" where
  "chatHandler lc en now message cw =
     (let userMessage = userMessageOf message
      in case getEventData en now cw of
           (Inl err, c, w) \<Rightarrow> failure err c w
         | (Inr EVENT_DATA, c, w) \<Rightarrow>
             (case resolveBooking userMessage (guests EVENT_DATA) of
                NotFound \<Rightarrow> (\<lparr>status = 200, reply = noBookingReply\<rparr>, c, w)
              | Found guestInfo \<Rightarrow>
                  (case hotelFind lc (hotels EVENT_DATA) guestInfo of
                     Inl err \<Rightarrow> failure err c w
                   | Inr hotel \<Rightarrow>
                       (\<lparr>status = 200, reply = bookingReply guestInfo hotel\<rparr>, c, w))
              | NoPhoneMentioned \<Rightarrow> completionPath EVENT_DATA userMessage c w))"

text \<open>
  Lower-casing of the ASCII letters, with which \<^verbatim>\<open>toLowerCase\<close> agrees on ASCII strings.
\<close>

definition asciiLower :: "jsstring \<Rightarrow> jsstring" where
  "asciiLower s = map (\<lambda>c. if 0x41 \<le> c \<and> c \<le> 0x5A then c + 0x20 else c) s"

section \<open>Sample data\<close>

text \<open>Guests, hotels and a world on which the theorems below are tried.\<close>

definition guestAsha :: guest where
  "guestAsha =
     \<lparr>g_phone = Str (js ''+91-9876543210''), g_name = Str (js ''Asha''),
      g_hotelName = Str (js ''Hotel Sunshine''), g_roomNo = Str (js ''204''),
      g_notes = Undefined\<rparr>"

definition guestRavi :: guest where
  "guestRavi =
     \<lparr>g_phone = Str (js ''9876543210''), g_name = Str (js ''Ravi''),
      g_hotelName = Undefined, g_roomNo = Undefined, g_notes = Undefined\<rparr>"

definition guestNoPhone :: guest where
  "guestNoPhone =
     \<lparr>g_phone = Str (js ''N/A''), g_name = Str (js ''Meera''),
      g_hotelName = Str (js ''Taj''), g_roomNo = Str (js ''12''),
      g_notes = Str (js ''Late arrival'')\<rparr>"

definition sampleSnapshot :: "guest list \<Rightarrow> hotel list \<Rightarrow> eventData" where
  "sampleSnapshot gs hs =
     \<lparr>coupleNames = Str (js ''Asha & Ravi''), weddingName = Str (js ''Jaipur Wedding''),
      city = Str (js ''Jaipur''), events = [], hotels = hs, guests = gs, stay = None,
      emergencyContact = None\<rparr>"

definition quietWorld :: world where
  "quietWorld =
     \<lparr>sheets = (\<lambda>url. NetworkFailure), requested = [],
      completions = (\<lambda>sp up. Rejected), prompted = [], console = []\<rparr>"

definition warmCache :: "eventData \<Rightarrow> cache" where
  "warmCache d = \<lparr>cachedEventData = Some d, lastLoadedMs = 1000\<rparr>"

definition noEnv :: env where
  "noEnv =
     \<lparr>META_CSV_URL = Undefined, EVENTS_CSV_URL = Undefined, HOTELS_CSV_URL = Undefined,
      GUESTS_CSV_URL = Undefined\<rparr>"

definition echoWorld :: world where
  "echoWorld =
     \<lparr>sheets = (\<lambda>url. NetworkFailure), requested = [],
      completions = (\<lambda>sp up. Choices [Str (js '' Shaadi 12 February ko hai. '')]),
      prompted = [], console = []\<rparr>"

definition sampleEnv :: env where
  "sampleEnv =
     \<lparr>META_CSV_URL = Str (js ''https://sheets.example/meta.csv''),
      EVENTS_CSV_URL = Str (js ''https://sheets.example/events.csv''),
      HOTELS_CSV_URL = Undefined,
      GUESTS_CSV_URL = Str (js ''https://sheets.example/guests.csv'')\<rparr>"

definition halfEnv :: env where
  "halfEnv =
     \<lparr>META_CSV_URL = Str (js ''https://sheets.example/meta.csv''),
      EVENTS_CSV_URL = Str [],
      HOTELS_CSV_URL = Undefined,
      GUESTS_CSV_URL = Undefined\<rparr>"

definition raviRow :: row where
  "raviRow = [js ''phone'' \<mapsto> js ''9876543210'', js ''name'' \<mapsto> js ''Ravi'']"

definition sheetWorld :: world where
  "sheetWorld =
     \<lparr>sheets = (\<lambda>url. if url = js ''https://sheets.example/guests.csv''
                       then HttpResponse 200 (Some [raviRow])
                       else HttpResponse 200 (Some [])),
      requested = [],
      completions = (\<lambda>sp up. Rejected), prompted = [], console = []\<rparr>"

definition builtSnapshot :: eventData where
  "builtSnapshot =
     \<lparr>coupleNames = Str [], weddingName = Str [], city = Str [], events = [], hotels = [],
      guests = [guestRavi], stay = None, emergencyContact = None\<rparr>"

definition longMessage :: jsstring where
  "longMessage = replicate 495 0x78 @ js ''9876543210''"


definition capitalRow :: row where
  "capitalRow = [js ''Name'' \<mapsto> js ''Hotel Sunshine'', js ''address'' \<mapsto> js ''MI Road, Jaipur'']"

definition namelessHotel :: hotel where
  "namelessHotel = hotelOf capitalRow"

section \<open>Theorems\<close>

subsection \<open>The phone pattern\<close>

lemma normalizePhone_Str: "normalizePhone (Str s) = filter isDigit s"
  by simp

declare normalizePhone.simps(3) [simp del]

declare normalizePhone_Str [simp]

lemma endsWith_suffix: "endsWith s q \<longleftrightarrow> suffix q s"
proof
  assume "endsWith s q"
  then have "s = take (length s - length q) s @ q"
    by (metis append_take_drop_id endsWith_def)
  then show "suffix q s" unfolding suffix_def by blast
next
  assume "suffix q s"
  then obtain zs where "s = zs @ q" unfolding suffix_def by blast
  then show "endsWith s q" by (simp add: endsWith_def)
qed

lemma digitRun_Some:
  assumes "digitRun s = Some d"
  shows "prefix d s \<and> list_all isDigit d \<and> 10 \<le> length d \<and> length d \<le> 13"
proof -
  from assms have d: "d = take 13 (takeWhile isDigit s)" and len: "10 \<le> length (takeWhile isDigit s)"
    by (auto simp: digitRun_def Let_def split: if_splits)
  have "prefix d (takeWhile isDigit s)" unfolding d by (rule take_is_prefix)
  moreover have "prefix (takeWhile isDigit s) s"
    by (metis prefixI takeWhile_dropWhile_id)
  ultimately have "prefix d s" by (rule prefix_order.trans)
  moreover have "list_all isDigit d"
    unfolding d list_all_iff by (auto dest: in_set_takeD set_takeWhileD)
  ultimately show ?thesis using len by (simp add: d)
qed

lemma phoneRegexAt_Some:
  assumes "phoneRegexAt s = Some m"
  shows "prefix m s \<and> (\<exists>d. (m = d \<or> m = 0x2B # d) \<and> list_all isDigit d \<and> 10 \<le> length d \<and> length d \<le> 13)"
proof (cases "digitRun s = Some m")
  case True
  from digitRun_Some[OF this] show ?thesis by blast
next
  case False
  with assms obtain rest d where s: "s = 0x2B # rest" and d: "digitRun rest = Some d" and m: "m = 0x2B # d"
    by (auto simp: phoneRegexAt_def split: list.splits if_splits option.splits)
  from digitRun_Some[OF d] show ?thesis unfolding s m by auto
qed

lemma phoneRegex_Some:
  "phoneRegex s = Some m \<Longrightarrow>
   sublist m s \<and> (\<exists>d. (m = d \<or> m = 0x2B # d) \<and> list_all isDigit d \<and> 10 \<le> length d \<and> length d \<le> 13)"
proof (induction s)
  case Nil
  then show ?case using phoneRegexAt_Some[of "[]" m] by auto
next
  case (Cons c cs)
  show ?case
  proof (cases "phoneRegexAt (c # cs)")
    case None
    with Cons.prems have "phoneRegex cs = Some m" by simp
    from Cons.IH[OF this] show ?thesis by (auto simp: sublist_Cons_right)
  next
    case (Some m')
    with Cons.prems have "m' = m" by simp
    with Some phoneRegexAt_Some[of "c # cs" m] show ?thesis
      by (auto simp: prefix_imp_sublist)
  qed
qed

lemma phoneRegexAt_None_digitRun: "phoneRegexAt s = None \<Longrightarrow> digitRun s = None"
  by (cases s) (simp_all add: phoneRegexAt_def split: if_splits option.splits)

lemma phoneRegex_None_suffix:
  "phoneRegex s = None \<Longrightarrow> suffix t s \<Longrightarrow> digitRun t = None"
proof (induction s)
  case Nil
  then show ?case by (simp add: phoneRegexAt_None_digitRun)
next
  case (Cons c cs)
  from Cons.prems(1) have at: "phoneRegexAt (c # cs) = None" and rest: "phoneRegex cs = None"
    by (auto split: option.splits)
  from Cons.prems(2) have "t = c # cs \<or> suffix t cs" by (simp add: suffix_Cons)
  then show ?case
  proof
    assume "t = c # cs"
    with at show ?thesis by (simp add: phoneRegexAt_None_digitRun)
  next
    assume "suffix t cs"
    with rest show ?thesis by (rule Cons.IH)
  qed
qed

lemma digitRun_None_short:
  assumes "digitRun (ds @ ss) = None" and "list_all isDigit ds"
  shows "length ds < 10"
proof -
  from assms(2) have "takeWhile isDigit (ds @ ss) = ds @ takeWhile isDigit ss"
    by (simp add: list_all_iff takeWhile_append2)
  with assms(1) show ?thesis
    by (simp add: digitRun_def Let_def split: if_splits)
qed

lemma sublist_take: "sublist ds (take n s) \<Longrightarrow> sublist ds s"
proof -
  assume "sublist ds (take n s)"
  then obtain ps ss where "take n s = ps @ ds @ ss" unfolding sublist_def by blast
  then have "s = ps @ ds @ (ss @ drop n s)"
    by (metis append_assoc append_take_drop_id)
  then show ?thesis unfolding sublist_def by blast
qed

lemma phoneRegex_None_iff:
  "phoneRegex s = None \<longleftrightarrow>
   (\<forall>ds. sublist ds s \<and> 10 \<le> length ds \<and> length ds \<le> 13 \<longrightarrow> \<not> list_all isDigit ds)"
proof
  assume none: "phoneRegex s = None"
  show "\<forall>ds. sublist ds s \<and> 10 \<le> length ds \<and> length ds \<le> 13 \<longrightarrow> \<not> list_all isDigit ds"
  proof (intro allI impI notI)
    fix ds
    assume a: "sublist ds s \<and> 10 \<le> length ds \<and> length ds \<le> 13" and d: "list_all isDigit ds"
    from a obtain ps ss where s: "s = ps @ ds @ ss" unfolding sublist_def by blast
    then have "suffix (ds @ ss) s" unfolding suffix_def by blast
    with none have "digitRun (ds @ ss) = None" by (rule phoneRegex_None_suffix)
    from digitRun_None_short[OF this d] a show False by simp
  qed
next
  assume no: "\<forall>ds. sublist ds s \<and> 10 \<le> length ds \<and> length ds \<le> 13 \<longrightarrow> \<not> list_all isDigit ds"
  show "phoneRegex s = None"
  proof (rule ccontr)
    assume "phoneRegex s \<noteq> None"
    then obtain m where m: "phoneRegex s = Some m" by blast
    from phoneRegex_Some[OF m] obtain d where
      sub: "sublist m s" and md: "m = d \<or> m = 0x2B # d" and
      d: "list_all isDigit d" "10 \<le> length d" "length d \<le> 13" by blast
    have "sublist d m" using md by (auto simp: sublist_Cons_right)
    with sub have "sublist d s" by (metis sublist_order.order.trans)
    with no d show False by blast
  qed
qed

lemma takeWhile_Nil_hd: "takeWhile P rest = [] \<longleftrightarrow> rest = [] \<or> \<not> P (hd rest)"
  by (cases rest) simp_all

lemma digitRun_append:
  assumes "rest = [] \<or> \<not> isDigit (hd rest)"
  shows "digitRun (t @ rest) = digitRun t"
proof -
  have "takeWhile isDigit (t @ rest) = takeWhile isDigit t"
  proof (cases rest)
    case Nil
    then show ?thesis by simp
  next
    case (Cons x l)
    with assms have "\<not> isDigit x" by simp
    then show ?thesis unfolding Cons by (rule takeWhile_tail)
  qed
  then show ?thesis by (simp add: digitRun_def)
qed

lemma phoneRegexAt_append:
  assumes "rest = [] \<or> \<not> isDigit (hd rest)" and "t \<noteq> []"
  shows "phoneRegexAt (t @ rest) = phoneRegexAt t"
proof -
  from assms(2) obtain c r where t: "t = c # r" by (cases t) auto
  have "digitRun (r @ rest) = digitRun r" "digitRun ((c # r) @ rest) = digitRun (c # r)"
    using assms(1) by (rule digitRun_append)+
  then show ?thesis unfolding t by (cases "c = 0x2B") (simp_all add: phoneRegexAt_def split: option.splits)
qed

lemma phoneRegex_append:
  assumes "rest = [] \<or> \<not> isDigit (hd rest)"
  shows "phoneRegex s = Some m \<Longrightarrow> phoneRegex (s @ rest) = Some m"
proof (induction s)
  case Nil
  then show ?case by (simp add: phoneRegexAt_def digitRun_def)
next
  case (Cons c cs)
  have at: "phoneRegexAt (c # cs @ rest) = phoneRegexAt (c # cs)"
    using phoneRegexAt_append[OF assms, of "c # cs"] by simp
  show ?case
  proof (cases "phoneRegexAt (c # cs)")
    case None
    with Cons.prems have "phoneRegex cs = Some m" by simp
    then have "phoneRegex (cs @ rest) = Some m" by (rule Cons.IH)
    with None at show ?thesis by simp
  next
    case (Some m')
    with Cons.prems at show ?thesis by simp
  qed
qed

lemma phoneRegex_leftmost:
  "phoneRegex s = Some m \<Longrightarrow>
   \<exists>pre post. s = pre @ m @ post \<and> phoneRegexAt (m @ post) = Some m \<and>
     (\<forall>k<length pre. phoneRegexAt (drop k s) = None)"
proof (induction s)
  case Nil
  then show ?case by (simp add: phoneRegexAt_def digitRun_def)
next
  case (Cons c cs)
  show ?case
  proof (cases "phoneRegexAt (c # cs)")
    case None
    with Cons.prems have "phoneRegex cs = Some m" by simp
    from Cons.IH[OF this] obtain pre post where
      cs: "cs = pre @ m @ post" and at: "phoneRegexAt (m @ post) = Some m" and
      left: "\<forall>k<length pre. phoneRegexAt (drop k cs) = None" by blast
    have "\<forall>k<length (c # pre). phoneRegexAt (drop k (c # cs)) = None"
    proof (intro allI impI)
      fix k assume k: "k < length (c # pre)"
      show "phoneRegexAt (drop k (c # cs)) = None"
      proof (cases k)
        case 0
        with None show ?thesis by simp
      next
        case (Suc j)
        with k left show ?thesis by simp
      qed
    qed
    moreover have "c # cs = (c # pre) @ m @ post" using cs by simp
    ultimately show ?thesis using at by blast
  next
    case (Some m')
    with Cons.prems have m: "phoneRegexAt (c # cs) = Some m" by simp
    from phoneRegexAt_Some[OF m] obtain post where "c # cs = m @ post"
      unfolding prefix_def by blast
    with m have "c # cs = [] @ m @ post \<and> phoneRegexAt (m @ post) = Some m \<and>
      (\<forall>k<length ([]::jsstring). phoneRegexAt (drop k (c # cs)) = None)" by simp
    then show ?thesis by blast
  qed
qed

lemma phoneRegex_skip:
  assumes "\<not> isDigit x" and "x \<noteq> 0x2B"
  shows "phoneRegex (replicate n x @ s) = phoneRegex s"
proof (induction n)
  case 0
  show ?case by simp
next
  case (Suc n)
  have "phoneRegexAt (x # replicate n x @ s) = None"
    using assms by (simp add: phoneRegexAt_def digitRun_def)
  with Suc show ?case by simp
qed

subsection \<open>The lookup\<close>

lemma find_unique:
  "g \<in> set gs \<Longrightarrow> P g \<Longrightarrow> (\<forall>g'\<in>set gs. P g' \<longrightarrow> g' = g) \<Longrightarrow> find P gs = Some g"
proof (induction gs)
  case Nil
  then show ?case by simp
next
  case (Cons a gs)
  show ?case
  proof (cases "P a")
    case True
    with Cons.prems(3) have "a = g" by simp
    with True show ?thesis by simp
  next
    case False
    with Cons.prems have "g \<in> set gs" by auto
    moreover from Cons.prems(3) have "\<forall>g'\<in>set gs. P g' \<longrightarrow> g' = g" by simp
    ultimately have "find P gs = Some g" using Cons.IH Cons.prems(2) by blast
    with False show ?thesis by simp
  qed
qed


lemma resolveBooking_Some:
  "phoneRegex userMessage = Some rawPhone \<Longrightarrow>
   resolveBooking userMessage gs =
     (case find (guestMatches (normalizePhone (Str rawPhone))) gs of
        None \<Rightarrow> NotFound | Some g \<Rightarrow> Found g)"
  by (cases gs) (simp_all add: resolveBooking_def Let_def split: option.splits)

lemma resolveBooking_None:
  "phoneRegex userMessage = None \<Longrightarrow> resolveBooking userMessage gs = NoPhoneMentioned"
  by (simp add: resolveBooking_def)

lemma guestMatches_suffix:
  "guestMatches p g \<longleftrightarrow> normalizePhone (g_phone g) \<noteq> [] \<and> suffix p (normalizePhone (g_phone g))"
  by (simp add: guestMatches_def Let_def endsWith_suffix)

subsection \<open>The cache and the handler\<close>

lemma getEventData_hit:
  "cachedEventData c = Some d \<Longrightarrow> now - lastLoadedMs c < CACHE_TTL_MS \<Longrightarrow>
   getEventData en now (c, w) = (Inr d, c, w)"
  by (simp add: getEventData_def)

lemma getEventData_miss:
  "cachedEventData c = None \<or> \<not> now - lastLoadedMs c < CACHE_TTL_MS \<Longrightarrow>
   getEventData en now (c, w) =
     (case buildEventDataFromSheets en w of
        (Inl e, w') \<Rightarrow> (Inl e, c, w')
      | (Inr data, w') \<Rightarrow> (Inr data, \<lparr>cachedEventData = Some data, lastLoadedMs = now\<rparr>, w'))"
  by (auto simp: getEventData_def Let_def split: option.splits)

lemma userMessageOf_Str: "userMessageOf (Str s) = take 500 s"
  by (simp add: userMessageOf_def js_or_def)

lemma userMessageOf_idem: "userMessageOf (Str (userMessageOf message)) = userMessageOf message"
  by (simp add: userMessageOf_Str) (simp add: userMessageOf_def)

lemma chatHandler_loaded:
  "getEventData en now cw = (Inr d, c, w) \<Longrightarrow>
   chatHandler lc en now message cw =
     (case resolveBooking (userMessageOf message) (guests d) of
        NotFound \<Rightarrow> (\<lparr>status = 200, reply = noBookingReply\<rparr>, c, w)
      | Found guestInfo \<Rightarrow>
          (case hotelFind lc (hotels d) guestInfo of
             Inl err \<Rightarrow> failure err c w
           | Inr hotel \<Rightarrow> (\<lparr>status = 200, reply = bookingReply guestInfo hotel\<rparr>, c, w))
      | NoPhoneMentioned \<Rightarrow> completionPath d (userMessageOf message) c w)"
  by (simp add: chatHandler_def Let_def)

lemma completionPath_reply:
  "completions w (systemPrompt d) (userPrompt (buildContextFromEventData d) userMessage) =
     Choices choices \<Longrightarrow>
   completionPath d userMessage c w =
     (\<lparr>status = 200, reply = completionReply choices\<rparr>, c,
      w\<lparr>prompted := prompted w @
          [(systemPrompt d, userPrompt (buildContextFromEventData d) userMessage)]\<rparr>)"
  by (simp add: completionPath_def Let_def)

lemma completionPath_prompted:
  "prompted (snd (snd (completionPath d um c w))) =
     prompted w @ [(systemPrompt d, userPrompt (buildContextFromEventData d) um)]"
  by (simp add: completionPath_def Let_def failure_def split: completion.splits)

lemma hotelFind_named:
  "\<forall>h\<in>set hs. \<exists>n. h_name h = Str n \<Longrightarrow>
   hotelFind lc hs g =
     Inr (find (\<lambda>h. optLower lc (h_name h) = optLower lc (g_hotelName g)) hs)"
proof (induction hs)
  case Nil
  show ?case by simp
next
  case (Cons h hs)
  from Cons.prems obtain n where n: "h_name h = Str n" by auto
  from Cons.prems have "\<forall>h\<in>set hs. \<exists>n. h_name h = Str n" by simp
  then have "hotelFind lc hs g =
     Inr (find (\<lambda>h. optLower lc (h_name h) = optLower lc (g_hotelName g)) hs)"
    by (rule Cons.IH)
  then show ?case by (simp add: n optLower_def)
qed

lemma booking_reply_with_named_hotels:
  assumes "getEventData en now cw = (Inr d, c, w)"
    and "resolveBooking (userMessageOf message) (guests d) = Found g"
    and "\<forall>h\<in>set (hotels d). \<exists>n. h_name h = Str n"
  shows "chatHandler lc en now message cw =
      (\<lparr>status = 200,
        reply = bookingReply g
          (find (\<lambda>h. optLower lc (h_name h) = optLower lc (g_hotelName g)) (hotels d))\<rparr>,
       c, w)"
  by (simp add: chatHandler_loaded[OF assms(1)] assms(2) hotelFind_named[OF assms(3)])

subsection \<open>The booking reply\<close>

lemma trimEnd_keep: "\<not> isWhiteSpace b \<Longrightarrow> trimEnd (X @ b # Y) = X @ b # trimEnd Y"
  by (simp add: trimEnd_def dropWhile_append3)

lemma trim_frame:
  assumes "isWhiteSpace n" and "\<not> isWhiteSpace a" and "\<not> isWhiteSpace b"
  shows "trim (n # a # X @ b # Y) = a # X @ b # trimEnd Y"
proof -
  have "trim (n # a # X @ b # Y) = trimEnd ((a # X) @ b # Y)"
    using assms(1,2) by (simp add: trim_def)
  also have "\<dots> = (a # X) @ b # trimEnd Y"
    using assms(3) by (rule trimEnd_keep)
  finally show ?thesis by simp
qed

lemma bookingReply_layout:
  "bookingReply g hotel =
     js ''<strong>Booking Found for '' @ tmpl (g_name g) @ js '':</strong>\<newline>'' @
     js ''<strong>Hotel:</strong> '' @
       tmpl (js_or (js_or (opt h_name hotel) (g_hotelName g)) (Str (js ''N/A''))) @
       js ''\<newline>'' @
     js ''<strong>Room:</strong> '' @ tmpl (js_or (g_roomNo g) (Str (js ''N/A''))) @
       js ''\<newline>'' @
     js ''<strong>Address:</strong> '' @
       tmpl (js_or (opt h_address hotel) (Str (js ''Address not available''))) @
       js ''\<newline>'' @
     js ''<strong>Map:</strong> '' @
       tmpl (js_or (opt h_mapLink hotel) (Str (js ''Map link not available''))) @
       js ''\<newline>'' @
     js ''<strong>Contact:</strong> '' @
       tmpl (js_or (opt h_contactPerson hotel) (Str (js ''N/A''))) @ js '' ('' @
       tmpl (js_or (opt h_contactPhone hotel) (Str (js ''N/A''))) @ js '')\<newline>'' @
     js ''<strong>Notes:</strong>'' @
       trimEnd (js '' '' @
         tmpl (js_or (js_or (g_notes g) (opt h_notes hotel))
                 (Str (js ''Enjoy your stay! '' @ [0xD83D, 0xDE0A]))) @
         js ''\<newline>'')"
  (is "_ = ?rhs")
proof -
  let ?N = "tmpl (js_or (js_or (g_notes g) (opt h_notes hotel))
                 (Str (js ''Enjoy your stay! '' @ [0xD83D, 0xDE0A])))"
  let ?X = "js ''strong>Booking Found for '' @ tmpl (g_name g) @ js '':</strong>\<newline>'' @
     js ''<strong>Hotel:</strong> '' @
       tmpl (js_or (js_or (opt h_name hotel) (g_hotelName g)) (Str (js ''N/A''))) @
       js ''\<newline>'' @
     js ''<strong>Room:</strong> '' @ tmpl (js_or (g_roomNo g) (Str (js ''N/A''))) @
       js ''\<newline>'' @
     js ''<strong>Address:</strong> '' @
       tmpl (js_or (opt h_address hotel) (Str (js ''Address not available''))) @
       js ''\<newline>'' @
     js ''<strong>Map:</strong> '' @
       tmpl (js_or (opt h_mapLink hotel) (Str (js ''Map link not available''))) @
       js ''\<newline>'' @
     js ''<strong>Contact:</strong> '' @
       tmpl (js_or (opt h_contactPerson hotel) (Str (js ''N/A''))) @ js '' ('' @
       tmpl (js_or (opt h_contactPhone hotel) (Str (js ''N/A''))) @ js '')\<newline>'' @
     js ''<strong>Notes:</strong''"
  let ?Y = "js '' '' @ ?N @ js ''\<newline>''"
  have "bookingReply g hotel = trim (0x0A # 0x3C # ?X @ 0x3E # ?Y)"
    by (simp add: bookingReply_def js_def)
  also have "\<dots> = 0x3C # ?X @ 0x3E # trimEnd ?Y"
    by (rule trim_frame) (simp_all add: isWhiteSpace_def)
  also have "\<dots> = ?rhs"
    by (simp add: js_def)
  finally show ?thesis .
qed

lemma bookingReply_no_hotel:
  "bookingReply g None =
     js ''<strong>Booking Found for '' @ tmpl (g_name g) @ js '':</strong>\<newline>'' @
     js ''<strong>Hotel:</strong> '' @ tmpl (js_or (g_hotelName g) (Str (js ''N/A''))) @
       js ''\<newline>'' @
     js ''<strong>Room:</strong> '' @ tmpl (js_or (g_roomNo g) (Str (js ''N/A''))) @
       js ''\<newline>'' @
     js ''<strong>Address:</strong> Address not available\<newline>'' @
     js ''<strong>Map:</strong> Map link not available\<newline>'' @
     js ''<strong>Contact:</strong> N/A (N/A)\<newline>'' @
     js ''<strong>Notes:</strong>'' @
       trimEnd (js '' '' @
         tmpl (js_or (g_notes g) (Str (js ''Enjoy your stay! '' @ [0xD83D, 0xDE0A]))) @
         js ''\<newline>'')"
  by (simp add: bookingReply_layout opt_def) (simp add: js_or_def js_def)

subsection \<open>The sample data evaluated\<close>

lemma getEventData_warm:
  "getEventData en 2000 (warmCache d, w) = (Inr d, warmCache d, w)"
  by (rule getEventData_hit) (simp_all add: warmCache_def CACHE_TTL_MS_def)

lemma spaced_no_match: "phoneRegex (js ''my number is +91 98765 43210'') = None"
  by (simp add: js_def phoneRegexAt_def digitRun_def isDigit_def)

lemma joined_match:
  "phoneRegex (js ''my number is +919876543210'') = Some (js ''+919876543210'')"
  by (simp add: js_def phoneRegexAt_def digitRun_def isDigit_def)

lemma guestRavi_phone: "guestRavi\<lparr>g_phone := Str (js ''9876543210'')\<rparr> = guestRavi"
  by (simp add: guestRavi_def)

lemma echo_reply:
  "completionReply [Str (js '' Shaadi 12 February ko hai. '')] = js ''Shaadi 12 February ko hai.''"
  by (simp add: completionReply_def js_or_def trim_def trimEnd_def isWhiteSpace_def js_def)

lemma guestOf_raviRow: "guestOf raviRow = guestRavi"
  by (simp add: guestOf_def raviRow_def guestRavi_def field_def js_def)

lemma build_sample:
  "buildEventDataFromSheets sampleEnv sheetWorld =
     (Inr builtSnapshot,
      sheetWorld\<lparr>requested := [js ''https://sheets.example/meta.csv'',
                                js ''https://sheets.example/events.csv'',
                                js ''https://sheets.example/guests.csv'']\<rparr>)"
  by (simp add: buildEventDataFromSheets_def sampleEnv_def sheetWorld_def loadCsv_def
      loadOptional_def assemble_def metaOf_def builtSnapshot_def guestOf_raviRow field_def
      js_or_def js_def)

lemma longMessage_cut: "userMessageOf (Str longMessage) = replicate 495 0x78 @ js ''98765''"
  by (simp add: userMessageOf_Str longMessage_def js_def)

lemma x_plain: "\<not> isDigit 0x78" "(0x78 :: jschar) \<noteq> 0x2B"
  by (simp_all add: isDigit_def)

lemma call_match: "phoneRegex (js ''call 9876543210 please'') = Some (js ''9876543210'')"
  by (simp add: js_def phoneRegexAt_def digitRun_def isDigit_def)

lemma call_query: "filter isDigit (js ''9876543210'') = js ''9876543210''"
  by (simp add: js_def isDigit_def)





lemma nameless: "h_name namelessHotel = Undefined"
  by (simp add: namelessHotel_def hotelOf_def capitalRow_def field_def js_def)

lemma ravi_found:
  "resolveBooking (js ''call 9876543210 please'') [guestRavi] = Found guestRavi"
  by (simp add: resolveBooking_Some[OF call_match] call_query guestMatches_def Let_def
      guestRavi_def endsWith_def) (simp add: js_def)

subsection \<open>Normalization\<close>

text \<open>
  C5. Phone normalization is idempotent: a string made only of digits is returned
  unchanged, and normalizing the result of a normalization changes nothing, for a
  stored value that is a string, undefined or null.
\<close>

theorem normalizePhone_idempotent:
  "(list_all isDigit s \<longrightarrow> normalizePhone (Str s) = s) \<and>
   normalizePhone (Str (normalizePhone v)) = normalizePhone v"
proof
  show "list_all isDigit s \<longrightarrow> normalizePhone (Str s) = s"
    by (simp add: list_all_iff)
next
  show "normalizePhone (Str (normalizePhone v)) = normalizePhone v"
    by (cases v) simp_all
qed

theorem normalizePhone_idempotent_witness:
  "list_all isDigit (js ''9876543210'') \<and>
   normalizePhone (Str (js ''9876543210'')) = js ''9876543210'' \<and>
   normalizePhone (Str (normalizePhone (Str (js ''+91-98765 43210'')))) =
     normalizePhone (Str (js ''+91-98765 43210''))"
proof -
  have d: "list_all isDigit (js ''9876543210'')"
    by (simp add: js_def isDigit_def)
  from normalizePhone_idempotent[of "js ''9876543210''" "Str (js ''+91-98765 43210'')"] d
  show ?thesis by blast
qed

subsection \<open>The booking lookup\<close>

text \<open>
  C1. When the phone substring extracted from the message normalizes to \<open>p\<close>, and
  exactly one guest of the list has a non-empty normalized phone with \<open>p\<close> as a suffix,
  the lookup returns that guest.
\<close>

theorem unique_suffix_match_found:
  assumes "phoneRegex userMessage = Some rawPhone"
    and "p = normalizePhone (Str rawPhone)"
    and "g \<in> set gs"
    and "normalizePhone (g_phone g) \<noteq> [] \<and> suffix p (normalizePhone (g_phone g))"
    and "\<forall>g'\<in>set gs. normalizePhone (g_phone g') \<noteq> [] \<and> suffix p (normalizePhone (g_phone g'))
           \<longrightarrow> g' = g"
  shows "resolveBooking userMessage gs = Found g"
proof -
  have "guestMatches p g" using assms(4) by (simp add: guestMatches_suffix)
  moreover have "\<forall>g'\<in>set gs. guestMatches p g' \<longrightarrow> g' = g"
    using assms(5) by (simp add: guestMatches_suffix)
  ultimately have "find (guestMatches p) gs = Some g"
    using assms(3) by (intro find_unique)
  then show ?thesis
    using resolveBooking_Some[OF assms(1), of gs] assms(2) by simp
qed

theorem unique_suffix_match_found_witness:
  "phoneRegex (js ''call 9876543210 please'') = Some (js ''9876543210'') \<and>
   guestAsha \<in> set [guestNoPhone, guestAsha] \<and>
   suffix (js ''9876543210'') (normalizePhone (g_phone guestAsha)) \<and>
   \<not> suffix (js ''9876543210'') (normalizePhone (g_phone guestNoPhone)) \<and>
   resolveBooking (js ''call 9876543210 please'') [guestNoPhone, guestAsha] = Found guestAsha"
proof -
  have m: "phoneRegex (js ''call 9876543210 please'') = Some (js ''9876543210'')"
    by (simp add: js_def phoneRegexAt_def digitRun_def isDigit_def)
  have p: "js ''9876543210'' = normalizePhone (Str (js ''9876543210''))"
    by (simp add: js_def isDigit_def)
  have a: "normalizePhone (g_phone guestAsha) = js ''919876543210''"
    by (simp add: guestAsha_def js_def isDigit_def)
  have n: "normalizePhone (g_phone guestNoPhone) = []"
    by (simp add: guestNoPhone_def js_def isDigit_def)
  have s: "suffix (js ''9876543210'') (js ''919876543210'')"
    by (simp add: endsWith_suffix[symmetric] endsWith_def js_def)
  have ns: "\<not> suffix (js ''9876543210'') []"
    by (simp add: js_def)
  have i: "guestAsha \<in> set [guestNoPhone, guestAsha]" by simp
  have h4: "normalizePhone (g_phone guestAsha) \<noteq> [] \<and>
            suffix (js ''9876543210'') (normalizePhone (g_phone guestAsha))"
    using s by (simp add: a) (simp add: js_def)
  have h5: "\<forall>g'\<in>set [guestNoPhone, guestAsha].
              normalizePhone (g_phone g') \<noteq> [] \<and>
              suffix (js ''9876543210'') (normalizePhone (g_phone g')) \<longrightarrow> g' = guestAsha"
    by (simp add: n)
  from unique_suffix_match_found[OF m p i h4 h5] m i h4 ns n show ?thesis by simp
qed

subsection \<open>The message with a spaced number\<close>

text \<open>
  C2 as stated does not hold: in \<^verbatim>\<open>"my number is +91 98765 43210"\<close> the spaces split the
  digits into runs of 2, 5 and 5, the pattern needs 10 in a row, so nothing is
  extracted and the lookup does not end in \<open>NotFound\<close>.
\<close>

theorem scenario_spaced_number_counterexample:
  "resolveBooking (js ''my number is +91 98765 43210'') [guestRavi] \<noteq> NotFound"
  by (simp add: resolveBooking_None[OF spaced_no_match])

text \<open>
  C2, amended. For the message \<^verbatim>\<open>"my number is +91 98765 43210"\<close> the lookup is
  \<open>NoPhoneMentioned\<close> whatever the guest list, and the handler takes the completion
  path. With the digits written in a row,
  \<^verbatim>\<open>"my number is +919876543210"\<close>, and a roster whose only guest has the phone
  \<^verbatim>\<open>"9876543210"\<close>, the lookup is \<open>NotFound\<close> and the reply is the no-booking notice: the
  query must be a suffix of the stored number, not the other way round.
\<close>

theorem scenario_spaced_number_amended:
  "resolveBooking (js ''my number is +91 98765 43210'') gs = NoPhoneMentioned \<and>
   resolveBooking (js ''my number is +919876543210'')
     [g\<lparr>g_phone := Str (js ''9876543210'')\<rparr>] = NotFound \<and>
   (getEventData en now cw = (Inr d, c, w) \<longrightarrow>
      chatHandler lc en now (Str (js ''my number is +91 98765 43210'')) cw =
        completionPath d (js ''my number is +91 98765 43210'') c w \<and>
      (guests d = [g\<lparr>g_phone := Str (js ''9876543210'')\<rparr>] \<longrightarrow>
         chatHandler lc en now (Str (js ''my number is +919876543210'')) cw =
           (\<lparr>status = 200, reply = noBookingReply\<rparr>, c, w)))"
proof -
  have a: "resolveBooking (js ''my number is +91 98765 43210'') gs = NoPhoneMentioned" for gs
    by (rule resolveBooking_None[OF spaced_no_match])
  have q: "filter isDigit (js ''+919876543210'') = js ''919876543210''"
    by (simp add: js_def isDigit_def)
  have s: "filter isDigit (js ''9876543210'') = js ''9876543210''"
    by (simp add: js_def isDigit_def)
  have "\<not> endsWith (js ''9876543210'') (js ''919876543210'')"
    by (simp add: endsWith_def js_def)
  then have "\<not> guestMatches (js ''919876543210'') (g\<lparr>g_phone := Str (js ''9876543210'')\<rparr>)"
    by (simp add: guestMatches_def Let_def s)
  then have b: "resolveBooking (js ''my number is +919876543210'')
     [g\<lparr>g_phone := Str (js ''9876543210'')\<rparr>] = NotFound"
    by (simp add: resolveBooking_Some[OF joined_match] q)
  have u: "userMessageOf (Str (js ''my number is +919876543210'')) = js ''my number is +919876543210''"
    by (simp add: userMessageOf_Str js_def)
  have v: "userMessageOf (Str (js ''my number is +91 98765 43210'')) =
      js ''my number is +91 98765 43210''"
    by (simp add: userMessageOf_Str js_def)
  have c: "chatHandler lc en now (Str (js ''my number is +91 98765 43210'')) cw =
        completionPath d (js ''my number is +91 98765 43210'') c w \<and>
      (guests d = [g\<lparr>g_phone := Str (js ''9876543210'')\<rparr>] \<longrightarrow>
         chatHandler lc en now (Str (js ''my number is +919876543210'')) cw =
           (\<lparr>status = 200, reply = noBookingReply\<rparr>, c, w))"
    if l: "getEventData en now cw = (Inr d, c, w)"
    using b by (auto simp: chatHandler_loaded[OF l] u v a)
  from a b c show ?thesis by blast
qed

theorem scenario_spaced_number_amended_witness:
  "getEventData noEnv 2000 (warmCache (sampleSnapshot [guestRavi] []), quietWorld) =
     (Inr (sampleSnapshot [guestRavi] []), warmCache (sampleSnapshot [guestRavi] []), quietWorld) \<and>
   guests (sampleSnapshot [guestRavi] []) = [guestRavi] \<and>
   resolveBooking (js ''my number is +91 98765 43210'') [guestRavi] = NoPhoneMentioned \<and>
   resolveBooking (js ''my number is +919876543210'') [guestRavi] = NotFound \<and>
   chatHandler asciiLower noEnv 2000 (Str (js ''my number is +91 98765 43210''))
       (warmCache (sampleSnapshot [guestRavi] []), quietWorld) =
     completionPath (sampleSnapshot [guestRavi] []) (js ''my number is +91 98765 43210'')
       (warmCache (sampleSnapshot [guestRavi] [])) quietWorld \<and>
   chatHandler asciiLower noEnv 2000 (Str (js ''my number is +919876543210''))
       (warmCache (sampleSnapshot [guestRavi] []), quietWorld) =
     (\<lparr>status = 200, reply = noBookingReply\<rparr>, warmCache (sampleSnapshot [guestRavi] []),
      quietWorld)"
proof -
  have h: "getEventData noEnv 2000 (warmCache (sampleSnapshot [guestRavi] []), quietWorld) =
     (Inr (sampleSnapshot [guestRavi] []), warmCache (sampleSnapshot [guestRavi] []), quietWorld)"
    by (rule getEventData_warm)
  have g: "guests (sampleSnapshot [guestRavi] []) = [guestRavi\<lparr>g_phone := Str (js ''9876543210'')\<rparr>]"
    by (simp add: sampleSnapshot_def guestRavi_phone)
  from scenario_spaced_number_amended[of "[guestRavi]" guestRavi noEnv 2000
      "(warmCache (sampleSnapshot [guestRavi] []), quietWorld)" "sampleSnapshot [guestRavi] []"
      "warmCache (sampleSnapshot [guestRavi] [])" quietWorld asciiLower] h g
  show ?thesis by (simp add: guestRavi_phone)
qed

subsection \<open>Messages without a phone number\<close>

text \<open>
  C3. A message with no run of 10 to 13 consecutive digits resolves to
  \<open>NoPhoneMentioned\<close> whatever the guest list, and the handler then takes the completion
  path with that message, cut to 500 code units. Only the first phone-like match
  counts: the match returned is the leftmost one (no attempt succeeds at an earlier
  position), and text appended after the message, as long as it does not lengthen a
  run of digits at its end, changes neither the match nor the outcome, even when it
  holds further phone numbers.
\<close>

theorem no_phone_goes_to_completion:
  "((\<forall>ds. sublist ds s \<and> 10 \<le> length ds \<and> length ds \<le> 13 \<longrightarrow> \<not> list_all isDigit ds) \<longrightarrow>
      resolveBooking s gs = NoPhoneMentioned \<and>
      (getEventData en now cw = (Inr d, c, w) \<longrightarrow>
         chatHandler lc en now (Str s) cw = completionPath d (take 500 s) c w)) \<and>
   (phoneRegex msg = Some m \<longrightarrow>
      (\<exists>pre post. msg = pre @ m @ post \<and>
         (\<forall>k<length pre. phoneRegexAt (drop k msg) = None)) \<and>
      (takeWhile isDigit rest = [] \<longrightarrow>
         phoneRegex (msg @ rest) = Some m \<and>
         resolveBooking (msg @ rest) gs = resolveBooking msg gs))"
proof (intro conjI impI)
  assume no: "\<forall>ds. sublist ds s \<and> 10 \<le> length ds \<and> length ds \<le> 13 \<longrightarrow> \<not> list_all isDigit ds"
  then have "phoneRegex s = None" by (simp add: phoneRegex_None_iff)
  then show "resolveBooking s gs = NoPhoneMentioned" by (rule resolveBooking_None)
  assume a: "getEventData en now cw = (Inr d, c, w)"
  have "\<forall>ds. sublist ds (take 500 s) \<and> 10 \<le> length ds \<and> length ds \<le> 13 \<longrightarrow> \<not> list_all isDigit ds"
    using no sublist_take by blast
  then have "phoneRegex (take 500 s) = None" by (simp add: phoneRegex_None_iff)
  then have "resolveBooking (take 500 s) (guests d) = NoPhoneMentioned"
    by (rule resolveBooking_None)
  then show "chatHandler lc en now (Str s) cw = completionPath d (take 500 s) c w"
    by (simp add: chatHandler_loaded[OF a] userMessageOf_Str)
next
  assume m: "phoneRegex msg = Some m"
  from phoneRegex_leftmost[OF m]
  show "\<exists>pre post. msg = pre @ m @ post \<and> (\<forall>k<length pre. phoneRegexAt (drop k msg) = None)"
    by blast
  assume "takeWhile isDigit rest = []"
  then have "rest = [] \<or> \<not> isDigit (hd rest)" by (simp add: takeWhile_Nil_hd)
  from phoneRegex_append[OF this m] show e: "phoneRegex (msg @ rest) = Some m" .
  show "resolveBooking (msg @ rest) gs = resolveBooking msg gs"
    by (simp add: resolveBooking_Some[OF e] resolveBooking_Some[OF m])
qed

theorem no_phone_goes_to_completion_witness:
  "phoneRegex (js ''kab hai shaadi? 98765'') = None \<and>
   resolveBooking (js ''kab hai shaadi? 98765'') [guestAsha] = NoPhoneMentioned \<and>
   chatHandler asciiLower noEnv 2000 (Str (js ''kab hai shaadi? 98765''))
       (warmCache (sampleSnapshot [guestAsha] []), echoWorld) =
     completionPath (sampleSnapshot [guestAsha] []) (take 500 (js ''kab hai shaadi? 98765''))
       (warmCache (sampleSnapshot [guestAsha] [])) echoWorld \<and>
   fst (completionPath (sampleSnapshot [guestAsha] []) (js ''kab hai shaadi? 98765'')
       (warmCache (sampleSnapshot [guestAsha] [])) echoWorld) =
     \<lparr>status = 200, reply = js ''Shaadi 12 February ko hai.''\<rparr> \<and>
   phoneRegex (js ''call 9876543210'') = Some (js ''9876543210'') \<and>
   takeWhile isDigit (js '' or +911234567890'') = [] \<and>
   phoneRegex (js ''call 9876543210'' @ js '' or +911234567890'') = Some (js ''9876543210'') \<and>
   resolveBooking (js ''call 9876543210'' @ js '' or +911234567890'') [guestAsha] =
     resolveBooking (js ''call 9876543210'') [guestAsha]"
proof -
  have none: "phoneRegex (js ''kab hai shaadi? 98765'') = None"
    by (simp add: js_def phoneRegexAt_def digitRun_def isDigit_def)
  then have h1: "\<forall>ds. sublist ds (js ''kab hai shaadi? 98765'') \<and> 10 \<le> length ds \<and> length ds \<le> 13
      \<longrightarrow> \<not> list_all isDigit ds"
    by (simp add: phoneRegex_None_iff)
  have h3: "getEventData noEnv 2000 (warmCache (sampleSnapshot [guestAsha] []), echoWorld) =
     (Inr (sampleSnapshot [guestAsha] []), warmCache (sampleSnapshot [guestAsha] []), echoWorld)"
    by (rule getEventData_warm)
  have h4: "phoneRegex (js ''call 9876543210'') = Some (js ''9876543210'')"
    by (simp add: js_def phoneRegexAt_def digitRun_def isDigit_def)
  have h5: "takeWhile isDigit (js '' or +911234567890'') = []"
    by (simp add: js_def isDigit_def)
  have r: "fst (completionPath (sampleSnapshot [guestAsha] []) (js ''kab hai shaadi? 98765'')
       (warmCache (sampleSnapshot [guestAsha] [])) echoWorld) =
     \<lparr>status = 200, reply = js ''Shaadi 12 February ko hai.''\<rparr>"
    by (subst completionPath_reply[where choices = "[Str (js '' Shaadi 12 February ko hai. '')]"])
       (simp_all add: echoWorld_def echo_reply)
  from no_phone_goes_to_completion[of "js ''kab hai shaadi? 98765''" "[guestAsha]"
      noEnv 2000 "(warmCache (sampleSnapshot [guestAsha] []), echoWorld)"
      "sampleSnapshot [guestAsha] []" "warmCache (sampleSnapshot [guestAsha] [])" echoWorld
      asciiLower "js ''call 9876543210''" "js ''9876543210''" "js '' or +911234567890''"]
    h1 h3 h4 h5 none r
  show ?thesis by blast
qed

subsection \<open>The lookup does not fail\<close>

text \<open>
  C6. The lookup always ends in one of its three outcomes: \<open>NoPhoneMentioned\<close> when
  nothing is extracted, \<open>NotFound\<close> when a phone is extracted and no guest matches, or
  a guest of the list. A stored phone that is undefined, null or empty normalizes to
  the empty string, a guest whose normalized phone is empty is never the one found,
  and \<open>NotFound\<close> is answered with status 200 and the no-booking notice, not with a
  failure.
\<close>

theorem resolver_outcomes:
  "normalizePhone Undefined = [] \<and> normalizePhone Null = [] \<and> normalizePhone (Str []) = [] \<and>
   (resolveBooking userMessage gs = NoPhoneMentioned \<and> phoneRegex userMessage = None \<or>
    resolveBooking userMessage gs = NotFound \<and> phoneRegex userMessage \<noteq> None \<or>
    (\<exists>g\<in>set gs. resolveBooking userMessage gs = Found g \<and> normalizePhone (g_phone g) \<noteq> [])) \<and>
   (normalizePhone (g_phone g) = [] \<longrightarrow> resolveBooking userMessage gs \<noteq> Found g) \<and>
   (getEventData en now cw = (Inr d, c, w) \<and>
    resolveBooking (userMessageOf message) (guests d) = NotFound \<longrightarrow>
      chatHandler lc en now message cw = (\<lparr>status = 200, reply = noBookingReply\<rparr>, c, w))"
proof -
  have found: "normalizePhone (g_phone g') \<noteq> [] \<and> g' \<in> set gs"
    if "resolveBooking userMessage gs = Found g'" for g'
  proof -
    from that obtain rawPhone where m: "phoneRegex userMessage = Some rawPhone"
      by (cases "phoneRegex userMessage") (simp_all add: resolveBooking_None)
    with that have "find (guestMatches (normalizePhone (Str rawPhone))) gs = Some g'"
      by (simp add: resolveBooking_Some[OF m] split: option.splits)
    then show ?thesis
      by (auto simp: find_Some_iff guestMatches_def Let_def)
  qed
  have tri: "resolveBooking userMessage gs = NoPhoneMentioned \<and> phoneRegex userMessage = None \<or>
    resolveBooking userMessage gs = NotFound \<and> phoneRegex userMessage \<noteq> None \<or>
    (\<exists>g\<in>set gs. resolveBooking userMessage gs = Found g \<and> normalizePhone (g_phone g) \<noteq> [])"
  proof (cases "phoneRegex userMessage")
    case None
    then show ?thesis by (simp add: resolveBooking_None)
  next
    case (Some rawPhone)
    show ?thesis
    proof (cases "resolveBooking userMessage gs")
      case NoPhoneMentioned
      then show ?thesis by (simp add: resolveBooking_Some[OF Some] split: option.splits)
    next
      case NotFound
      with Some show ?thesis by simp
    next
      case (Found g')
      with found[of g'] show ?thesis by blast
    qed
  qed
  have never: "normalizePhone (g_phone g) = [] \<longrightarrow> resolveBooking userMessage gs \<noteq> Found g"
    using found[of g] by blast
  have handler: "getEventData en now cw = (Inr d, c, w) \<and>
    resolveBooking (userMessageOf message) (guests d) = NotFound \<longrightarrow>
      chatHandler lc en now message cw = (\<lparr>status = 200, reply = noBookingReply\<rparr>, c, w)"
    by (simp add: chatHandler_loaded)
  from tri never handler show ?thesis by simp
qed

theorem resolver_outcomes_witness:
  "normalizePhone (g_phone guestNoPhone) = [] \<and>
   phoneRegex (js ''call 9876543210 please'') \<noteq> None \<and>
   resolveBooking (js ''call 9876543210 please'') [guestNoPhone] = NotFound \<and>
   resolveBooking (js ''call 9876543210 please'') [guestNoPhone] \<noteq> Found guestNoPhone \<and>
   chatHandler asciiLower noEnv 2000 (Str (js ''call 9876543210 please''))
       (warmCache (sampleSnapshot [guestNoPhone] []), quietWorld) =
     (\<lparr>status = 200, reply = noBookingReply\<rparr>, warmCache (sampleSnapshot [guestNoPhone] []),
      quietWorld)"
proof -
  have n: "normalizePhone (g_phone guestNoPhone) = []"
    by (simp add: guestNoPhone_def js_def isDigit_def)
  have m: "phoneRegex (js ''call 9876543210 please'') = Some (js ''9876543210'')"
    by (simp add: js_def phoneRegexAt_def digitRun_def isDigit_def)
  have nf: "resolveBooking (js ''call 9876543210 please'') [guestNoPhone] = NotFound"
    by (simp add: resolveBooking_Some[OF m] guestMatches_def n)
  have u: "userMessageOf (Str (js ''call 9876543210 please'')) = js ''call 9876543210 please''"
    by (simp add: userMessageOf_Str js_def)
  have h: "getEventData noEnv 2000 (warmCache (sampleSnapshot [guestNoPhone] []), quietWorld) =
     (Inr (sampleSnapshot [guestNoPhone] []), warmCache (sampleSnapshot [guestNoPhone] []),
      quietWorld)"
    by (rule getEventData_warm)
  have g: "guests (sampleSnapshot [guestNoPhone] []) = [guestNoPhone]"
    by (simp add: sampleSnapshot_def)
  from resolver_outcomes[of "js ''call 9876543210 please''" "[guestNoPhone]" guestNoPhone noEnv 2000
      "(warmCache (sampleSnapshot [guestNoPhone] []), quietWorld)"
      "sampleSnapshot [guestNoPhone] []" "warmCache (sampleSnapshot [guestNoPhone] [])" quietWorld
      "Str (js ''call 9876543210 please'')" asciiLower] n m nf u h g
  show ?thesis by simp
qed


subsection \<open>The cache\<close>

text \<open>
  C7. While a snapshot is cached and its age is below 5 minutes (300000 ms),
  \<open>getEventData\<close> returns that snapshot, requests nothing and leaves the cache as it
  is, whatever the sheets hold by then; so a second call inside the window, made after
  the sheets changed, returns the same snapshot again. When no snapshot is cached or
  the age has reached 5 minutes and the build succeeds, the cache holds exactly the
  newly built snapshot, stamped with the time of the call.
\<close>

theorem cache_within_ttl:
  "(cachedEventData c = Some d \<and> now - lastLoadedMs c < 300000 \<longrightarrow>
      getEventData en now (c, w) = (Inr d, c, w)) \<and>
   (cachedEventData c = Some d \<and> now - lastLoadedMs c < 300000 \<and>
    later - lastLoadedMs c < 300000 \<longrightarrow>
      getEventData en later (fst (snd (getEventData en now (c, w))), w') = (Inr d, c, w')) \<and>
   ((cachedEventData c = None \<or> \<not> now - lastLoadedMs c < 300000) \<and>
    buildEventDataFromSheets en w = (Inr fresh, w1) \<longrightarrow>
      getEventData en now (c, w) =
        (Inr fresh, \<lparr>cachedEventData = Some fresh, lastLoadedMs = now\<rparr>, w1))"
proof (intro conjI impI)
  assume a: "cachedEventData c = Some d \<and> now - lastLoadedMs c < 300000"
  then show "getEventData en now (c, w) = (Inr d, c, w)"
    by (simp add: getEventData_hit CACHE_TTL_MS_def)
next
  assume a: "cachedEventData c = Some d \<and> now - lastLoadedMs c < 300000 \<and>
    later - lastLoadedMs c < 300000"
  then have "getEventData en now (c, w) = (Inr d, c, w)"
    by (simp add: getEventData_hit CACHE_TTL_MS_def)
  moreover from a have "getEventData en later (c, w') = (Inr d, c, w')"
    by (simp add: getEventData_hit CACHE_TTL_MS_def)
  ultimately show "getEventData en later (fst (snd (getEventData en now (c, w))), w') = (Inr d, c, w')"
    by simp
next
  assume a: "(cachedEventData c = None \<or> \<not> now - lastLoadedMs c < 300000) \<and>
    buildEventDataFromSheets en w = (Inr fresh, w1)"
  then have "cachedEventData c = None \<or> \<not> now - lastLoadedMs c < CACHE_TTL_MS"
    by (simp add: CACHE_TTL_MS_def)
  from getEventData_miss[OF this] a
  show "getEventData en now (c, w) =
        (Inr fresh, \<lparr>cachedEventData = Some fresh, lastLoadedMs = now\<rparr>, w1)"
    by simp
qed

theorem cache_within_ttl_witness:
  "cachedEventData (warmCache (sampleSnapshot [guestAsha] [])) = Some (sampleSnapshot [guestAsha] []) \<and>
   (2000::int) - lastLoadedMs (warmCache (sampleSnapshot [guestAsha] [])) < 300000 \<and>
   (300999::int) - lastLoadedMs (warmCache (sampleSnapshot [guestAsha] [])) < 300000 \<and>
   \<not> (301000::int) - lastLoadedMs (warmCache (sampleSnapshot [guestAsha] [])) < 300000 \<and>
   getEventData sampleEnv 2000 (warmCache (sampleSnapshot [guestAsha] []), quietWorld) =
     (Inr (sampleSnapshot [guestAsha] []), warmCache (sampleSnapshot [guestAsha] []), quietWorld) \<and>
   getEventData sampleEnv 300999
       (fst (snd (getEventData sampleEnv 2000
          (warmCache (sampleSnapshot [guestAsha] []), quietWorld))), sheetWorld) =
     (Inr (sampleSnapshot [guestAsha] []), warmCache (sampleSnapshot [guestAsha] []), sheetWorld) \<and>
   getEventData sampleEnv 301000 (warmCache (sampleSnapshot [guestAsha] []), sheetWorld) =
     (Inr builtSnapshot, \<lparr>cachedEventData = Some builtSnapshot, lastLoadedMs = 301000\<rparr>,
      sheetWorld\<lparr>requested := [js ''https://sheets.example/meta.csv'',
                                js ''https://sheets.example/events.csv'',
                                js ''https://sheets.example/guests.csv'']\<rparr>)"
proof -
  let ?d = "sampleSnapshot [guestAsha] []"
  have h1: "cachedEventData (warmCache ?d) = Some ?d" by (simp add: warmCache_def)
  have h2: "(2000::int) - lastLoadedMs (warmCache ?d) < 300000" by (simp add: warmCache_def)
  have h3: "(300999::int) - lastLoadedMs (warmCache ?d) < 300000" by (simp add: warmCache_def)
  have h4: "\<not> (301000::int) - lastLoadedMs (warmCache ?d) < 300000" by (simp add: warmCache_def)
  note hit = cache_within_ttl[of "warmCache ?d" ?d 2000 sampleEnv quietWorld 300999 sheetWorld]
  note miss = cache_within_ttl[of "warmCache ?d" ?d 301000 sampleEnv sheetWorld 300999 sheetWorld
      builtSnapshot "sheetWorld\<lparr>requested := [js ''https://sheets.example/meta.csv'',
                                js ''https://sheets.example/events.csv'',
                                js ''https://sheets.example/guests.csv'']\<rparr>"]
  from hit miss h1 h2 h3 h4 build_sample show ?thesis by blast
qed

subsection \<open>A missing required location\<close>

text \<open>
  C8. When the location of the meta sheet or of the events sheet is unset (undefined or
  empty), the build fails with the configuration error and the world is untouched: no
  sheet has been requested. A request that has to rebuild (nothing cached, or the cache
  expired) is then answered with status 500 and the fixed apology, the cache stays as
  it was, and the error itself only goes to the console.
\<close>

theorem missing_location_fails_request:
  "\<not> truthy (META_CSV_URL en) \<or> \<not> truthy (EVENTS_CSV_URL en) \<Longrightarrow>
   buildEventDataFromSheets en w = (Inl ConfigMissing, w) \<and>
   (cachedEventData c = None \<or> \<not> now - lastLoadedMs c < 300000 \<longrightarrow>
      getEventData en now (c, w) = (Inl ConfigMissing, c, w) \<and>
      chatHandler lc en now message (c, w) =
        (\<lparr>status = 500,
          reply = js ''Oops, Babli Bua ko data load karne mein issue aa gaya. Please thodi der baad try karo.''\<rparr>,
         c, w\<lparr>console := console w @ [ConfigMissing]\<rparr>))"
proof -
  assume a: "\<not> truthy (META_CSV_URL en) \<or> \<not> truthy (EVENTS_CSV_URL en)"
  then have b: "buildEventDataFromSheets en w = (Inl ConfigMissing, w)"
    by (auto simp: buildEventDataFromSheets_def)
  have "getEventData en now (c, w) = (Inl ConfigMissing, c, w) \<and>
      chatHandler lc en now message (c, w) =
        (\<lparr>status = 500, reply = errorReply\<rparr>, c, w\<lparr>console := console w @ [ConfigMissing]\<rparr>)"
    if "cachedEventData c = None \<or> \<not> now - lastLoadedMs c < 300000"
  proof -
    from that have "cachedEventData c = None \<or> \<not> now - lastLoadedMs c < CACHE_TTL_MS"
      by (simp add: CACHE_TTL_MS_def)
    from getEventData_miss[OF this] b
    have g: "getEventData en now (c, w) = (Inl ConfigMissing, c, w)" by simp
    then show ?thesis by (simp add: chatHandler_def failure_def)
  qed
  with b show ?thesis by (simp add: errorReply_def)
qed

theorem missing_location_fails_request_witness:
  "\<not> truthy (EVENTS_CSV_URL halfEnv) \<and>
   buildEventDataFromSheets halfEnv sheetWorld = (Inl ConfigMissing, sheetWorld) \<and>
   cachedEventData initialCache = None \<and>
   chatHandler asciiLower halfEnv 2000 (Str (js ''call 9876543210 please''))
       (initialCache, sheetWorld) =
     (\<lparr>status = 500,
       reply = js ''Oops, Babli Bua ko data load karne mein issue aa gaya. Please thodi der baad try karo.''\<rparr>,
      initialCache, sheetWorld\<lparr>console := [ConfigMissing]\<rparr>)"
proof -
  have h1: "\<not> truthy (EVENTS_CSV_URL halfEnv)" by (simp add: halfEnv_def)
  then have h1': "\<not> truthy (META_CSV_URL halfEnv) \<or> \<not> truthy (EVENTS_CSV_URL halfEnv)" ..
  have h2: "cachedEventData initialCache = None" by (simp add: initialCache_def)
  have c: "console sheetWorld = []" by (simp add: sheetWorld_def)
  from missing_location_fails_request[OF h1', of sheetWorld initialCache 2000 asciiLower
      "Str (js ''call 9876543210 please'')"] h1 h2 c
  show ?thesis by simp
qed


subsection \<open>Truncation of the message\<close>

text \<open>
  C9. The message the handler works with is at most 500 code units long: it is the
  first 500 code units of the body's string. Nothing beyond them has any effect: the
  handler does exactly what it does when given the truncated message as the body, and
  when it takes the completion path, the phone pattern has been tried on the truncated
  message and the prompt sent holds the truncated message.
\<close>

theorem message_truncated_to_500:
  "length (userMessageOf message) \<le> 500 \<and>
   userMessageOf (Str s) = take 500 s \<and>
   chatHandler lc en now message cw = chatHandler lc en now (Str (userMessageOf message)) cw \<and>
   (getEventData en now cw = (Inr d, c, w) \<and>
    resolveBooking (userMessageOf message) (guests d) = NoPhoneMentioned \<longrightarrow>
      chatHandler lc en now message cw = completionPath d (userMessageOf message) c w \<and>
      prompted (snd (snd (chatHandler lc en now message cw))) =
        prompted w @
          [(systemPrompt d, userPrompt (buildContextFromEventData d) (userMessageOf message))])"
proof (intro conjI impI)
  show "length (userMessageOf message) \<le> 500" by (simp add: userMessageOf_def)
  show "userMessageOf (Str s) = take 500 s" by (rule userMessageOf_Str)
  show "chatHandler lc en now message cw = chatHandler lc en now (Str (userMessageOf message)) cw"
    by (simp add: chatHandler_def userMessageOf_idem)
next
  assume a: "getEventData en now cw = (Inr d, c, w) \<and>
    resolveBooking (userMessageOf message) (guests d) = NoPhoneMentioned"
  then show e: "chatHandler lc en now message cw = completionPath d (userMessageOf message) c w"
    by (simp add: chatHandler_loaded)
  show "prompted (snd (snd (chatHandler lc en now message cw))) =
        prompted w @
          [(systemPrompt d, userPrompt (buildContextFromEventData d) (userMessageOf message))]"
    unfolding e by (rule completionPath_prompted)
qed

theorem message_truncated_to_500_witness:
  "length longMessage = 505 \<and>
   phoneRegex longMessage = Some (js ''9876543210'') \<and>
   userMessageOf (Str longMessage) = replicate 495 0x78 @ js ''98765'' \<and>
   getEventData noEnv 2000 (warmCache (sampleSnapshot [guestRavi] []), echoWorld) =
     (Inr (sampleSnapshot [guestRavi] []), warmCache (sampleSnapshot [guestRavi] []), echoWorld) \<and>
   resolveBooking (userMessageOf (Str longMessage)) (guests (sampleSnapshot [guestRavi] [])) =
     NoPhoneMentioned \<and>
   chatHandler asciiLower noEnv 2000 (Str longMessage)
       (warmCache (sampleSnapshot [guestRavi] []), echoWorld) =
     completionPath (sampleSnapshot [guestRavi] []) (replicate 495 0x78 @ js ''98765'')
       (warmCache (sampleSnapshot [guestRavi] [])) echoWorld \<and>
   prompted (snd (snd (chatHandler asciiLower noEnv 2000 (Str longMessage)
       (warmCache (sampleSnapshot [guestRavi] []), echoWorld)))) =
     [(systemPrompt (sampleSnapshot [guestRavi] []),
       userPrompt (buildContextFromEventData (sampleSnapshot [guestRavi] []))
         (replicate 495 0x78 @ js ''98765''))]"
proof -
  let ?d = "sampleSnapshot [guestRavi] []"
  have l: "length longMessage = 505" by (simp add: longMessage_def js_def)
  have full: "phoneRegex longMessage = Some (js ''9876543210'')"
    unfolding longMessage_def phoneRegex_skip[OF x_plain]
    by (simp add: js_def phoneRegexAt_def digitRun_def isDigit_def)
  have cut: "phoneRegex (replicate 495 0x78 @ js ''98765'') = None"
    unfolding phoneRegex_skip[OF x_plain]
    by (simp add: js_def phoneRegexAt_def digitRun_def isDigit_def)
  have h1: "getEventData noEnv 2000 (warmCache ?d, echoWorld) = (Inr ?d, warmCache ?d, echoWorld)"
    by (rule getEventData_warm)
  have h2: "resolveBooking (userMessageOf (Str longMessage)) (guests ?d) = NoPhoneMentioned"
    unfolding longMessage_cut using cut by (rule resolveBooking_None)
  have p: "prompted echoWorld = []" by (simp add: echoWorld_def)
  note inst = message_truncated_to_500[of "Str longMessage" "js ''hi''" asciiLower noEnv 2000
      "(warmCache ?d, echoWorld)" ?d "warmCache ?d" echoWorld]
  from inst h1 h2 have
    a: "chatHandler asciiLower noEnv 2000 (Str longMessage) (warmCache ?d, echoWorld) =
          completionPath ?d (userMessageOf (Str longMessage)) (warmCache ?d) echoWorld" and
    b: "prompted (snd (snd (chatHandler asciiLower noEnv 2000 (Str longMessage)
          (warmCache ?d, echoWorld)))) =
        prompted echoWorld @
          [(systemPrompt ?d,
            userPrompt (buildContextFromEventData ?d) (userMessageOf (Str longMessage)))]"
    by blast+
  from a have a': "chatHandler asciiLower noEnv 2000 (Str longMessage) (warmCache ?d, echoWorld) =
          completionPath ?d (replicate 495 0x78 @ js ''98765'') (warmCache ?d) echoWorld"
    by (simp only: longMessage_cut)
  from b have b': "prompted (snd (snd (chatHandler asciiLower noEnv 2000 (Str longMessage)
          (warmCache ?d, echoWorld)))) =
          [(systemPrompt ?d,
            userPrompt (buildContextFromEventData ?d) (replicate 495 0x78 @ js ''98765''))]"
    by (simp only: longMessage_cut p append_Nil)
  from l full longMessage_cut h1 h2 a' b' show ?thesis by blast
qed


subsection \<open>The message with a number in a row\<close>




subsection \<open>The hotel join\<close>

text \<open>
  C10. The claim is that a found guest always gets the booking reply, with fallbacks
  when the guest's hotel name is missing or matches no hotel. It holds when every hotel
  of the snapshot has a name (\<open>booking_reply_with_named_hotels\<close>, \<open>bookingReply_no_hotel\<close>).
  It fails on a hotels sheet whose header has no \<^verbatim>\<open>name\<close> column, here one that says
  \<^verbatim>\<open>Name\<close>: the hotel's name is undefined, \<^verbatim>\<open>h.name.toLowerCase()\<close> throws, and the
  guest, whose own hotel name is undefined, is answered with status 500 and the
  apology instead of the booking reply.
\<close>

theorem nameless_hotel_fails_request:
  "g_hotelName guestRavi = Undefined \<and>
   h_name namelessHotel = Undefined \<and>
   resolveBooking (js ''call 9876543210 please'')
     (guests (sampleSnapshot [guestRavi] [namelessHotel])) = Found guestRavi \<and>
   hotelFind asciiLower (hotels (sampleSnapshot [guestRavi] [namelessHotel])) guestRavi =
     Inl TypeError \<and>
   chatHandler asciiLower noEnv 2000 (Str (js ''call 9876543210 please''))
       (warmCache (sampleSnapshot [guestRavi] [namelessHotel]), quietWorld) =
     (\<lparr>status = 500, reply = errorReply\<rparr>,
      warmCache (sampleSnapshot [guestRavi] [namelessHotel]),
      quietWorld\<lparr>console := [TypeError]\<rparr>)"
proof -
  let ?d = "sampleSnapshot [guestRavi] [namelessHotel]"
  have a: "g_hotelName guestRavi = Undefined" by (simp add: guestRavi_def)
  have g: "guests ?d = [guestRavi]" and hs: "hotels ?d = [namelessHotel]"
    by (simp_all add: sampleSnapshot_def)
  have f: "hotelFind asciiLower [namelessHotel] guestRavi = Inl TypeError"
    by (simp add: nameless)
  have u: "userMessageOf (Str (js ''call 9876543210 please'')) = js ''call 9876543210 please''"
    by (simp add: userMessageOf_Str js_def)
  have l: "getEventData noEnv 2000 (warmCache ?d, quietWorld) = (Inr ?d, warmCache ?d, quietWorld)"
    by (rule getEventData_warm)
  have c: "console quietWorld = []" by (simp add: quietWorld_def)
  have h: "chatHandler asciiLower noEnv 2000 (Str (js ''call 9876543210 please''))
       (warmCache ?d, quietWorld) =
     (\<lparr>status = 500, reply = errorReply\<rparr>, warmCache ?d, quietWorld\<lparr>console := [TypeError]\<rparr>)"
    by (simp add: chatHandler_loaded[OF l] u g hs ravi_found nameless failure_def c)
  from a nameless ravi_found f h show ?thesis by (simp add: g hs)
qed

end
